theory Spec2Isabelle
  imports Complex_Main
begin

section \<open>Numbers, errors and strings of the Python program\<close>

text \<open>
  The program computes with Python and numpy floats. A finite float is modelled by the
  real number it stands for; the IEEE special values that the program can produce from
  finite data (a division by zero under numpy, the standard deviation of fewer than two
  samples) are kept as values of their own. The rounding and the bounded range of a double
  are not modelled: an overflow or an underflow inside an expression (the OverflowError of
  \<open>math.exp\<close> or of \<open>sigma**2\<close>, a quotient that underflows to \<open>0.0\<close>) has no counterpart
  here. The properties proved below are those that do not depend on them: which guard
  raises which error, what a run prints and returns, and the value of a result when one
  is returned.
\<close>

datatype pyfloat = Fin real | PosInf | NegInf | NaN

text \<open>A number held by an accumulator: the Python int it starts as, or a numpy float64.\<close>

datatype pynum = PyInt int | NpFloat pyfloat

datatype error = ValueError string | ZeroDivisionError | KeyError

text \<open>\<open>str.lower()\<close> on the ASCII range.\<close>

definition lower_char :: "char \<Rightarrow> char" where
  "lower_char c =
     (if 65 \<le> (of_char c :: nat) \<and> (of_char c :: nat) \<le> 90
      then char_of ((of_char c :: nat) + 32) else c)"

definition lower :: "string \<Rightarrow> string" where
  "lower s = map lower_char s"

section \<open>black_scholes_price (optionsPricer.py and optionsProfit.py, same body)\<close>

text \<open>
  \<open>cdf\<close> stands for \<open>scipy.stats.norm.cdf\<close>, the standard normal distribution function,
  which is library code and a parameter of the model. The two guards and their order are
  those of the source; the arithmetic between them is over the reals.
\<close>

definition black_scholes_price ::
  "(real \<Rightarrow> real) \<Rightarrow> real \<Rightarrow> real \<Rightarrow> real \<Rightarrow> real \<Rightarrow> real \<Rightarrow> string \<Rightarrow> error + real" where
  "black_scholes_price cdf S K T r sigma option_type =
     (if T \<le> 0 \<or> sigma \<le> 0 \<or> S \<le> 0 \<or> K \<le> 0
      then Inl (ValueError ''S, K, T, and sigma must be greater than 0.'')
      else let d1 = (ln (S / K) + (r + 0.5 * sigma ^ 2) * T) / (sigma * sqrt T);
               d2 = d1 - sigma * sqrt T
           in if lower option_type = ''call''
              then Inr (S * cdf d1 - K * exp (- r * T) * cdf d2)
              else if lower option_type = ''put''
              then Inr (K * exp (- r * T) * cdf (- d2) - S * cdf (- d1))
              else Inl (ValueError ''Invalid option type. Use 'call' or 'put'.''))"

text \<open>
  The standard normal distribution function as its Maclaurin series
  \<open>1/2 + (1/sqrt (2 pi)) * (\<Sum>n. (-1)^n x^(2n+1) / (2^n n! (2n+1)))\<close>,
  used where a concrete \<open>cdf\<close> is needed.
\<close>

definition norm_cdf_term :: "real \<Rightarrow> nat \<Rightarrow> real" where
  "norm_cdf_term x n = (- 1) ^ n * x ^ (2 * n + 1) / (2 ^ n * fact n * real (2 * n + 1))"

definition norm_cdf :: "real \<Rightarrow> real" where
  "norm_cdf x = 1 / 2 + (\<Sum>n. norm_cdf_term x n) / sqrt (2 * pi)"

section \<open>numpy and Python arithmetic on the special values\<close>

fun np_neg :: "pyfloat \<Rightarrow> pyfloat" where
  "np_neg (Fin a) = Fin (- a)"
| "np_neg PosInf = NegInf"
| "np_neg NegInf = PosInf"
| "np_neg NaN = NaN"

fun np_add :: "pyfloat \<Rightarrow> pyfloat \<Rightarrow> pyfloat" where
  "np_add (Fin a) (Fin b) = Fin (a + b)"
| "np_add NaN y = NaN"
| "np_add x NaN = NaN"
| "np_add PosInf NegInf = NaN"
| "np_add NegInf PosInf = NaN"
| "np_add PosInf y = PosInf"
| "np_add NegInf y = NegInf"
| "np_add (Fin a) y = y"

definition np_sub :: "pyfloat \<Rightarrow> pyfloat \<Rightarrow> pyfloat" where
  "np_sub x y = np_add x (np_neg y)"

definition np_signed_inf :: "real \<Rightarrow> pyfloat" where
  "np_signed_inf a = (if 0 < a then PosInf else if a < 0 then NegInf else NaN)"

fun np_mul :: "pyfloat \<Rightarrow> pyfloat \<Rightarrow> pyfloat" where
  "np_mul (Fin a) (Fin b) = Fin (a * b)"
| "np_mul NaN y = NaN"
| "np_mul x NaN = NaN"
| "np_mul (Fin a) PosInf = np_signed_inf a"
| "np_mul (Fin a) NegInf = np_signed_inf (- a)"
| "np_mul PosInf (Fin b) = np_signed_inf b"
| "np_mul NegInf (Fin b) = np_signed_inf (- b)"
| "np_mul PosInf PosInf = PosInf"
| "np_mul NegInf NegInf = PosInf"
| "np_mul PosInf NegInf = NegInf"
| "np_mul NegInf PosInf = NegInf"

text \<open>
  numpy's true division never raises: a finite nonzero value over zero is an infinity,
  zero over zero and infinity over infinity are NaN.
\<close>

fun np_div :: "pyfloat \<Rightarrow> pyfloat \<Rightarrow> pyfloat" where
  "np_div (Fin a) (Fin b) = (if b \<noteq> 0 then Fin (a / b) else np_signed_inf a)"
| "np_div NaN y = NaN"
| "np_div x NaN = NaN"
| "np_div (Fin a) y = Fin 0"
| "np_div PosInf (Fin b) = (if 0 \<le> b then PosInf else NegInf)"
| "np_div NegInf (Fin b) = (if 0 \<le> b then NegInf else PosInf)"
| "np_div x y = NaN"

definition is_integral :: "real \<Rightarrow> bool" where
  "is_integral e = (e = of_int \<lfloor>e\<rfloor>)"

text \<open>
  numpy's \<open>float64 ** float\<close>: a negative base with a fractional exponent is NaN
  (where a Python float would give a complex number).
\<close>

fun np_pow :: "pyfloat \<Rightarrow> real \<Rightarrow> pyfloat" where
  "np_pow (Fin b) e =
     (if e = 0 then Fin 1
      else if 0 < b then Fin (b powr e)
      else if b = 0 then (if 0 < e then Fin 0 else PosInf)
      else if is_integral e
           then Fin (if even \<lfloor>e\<rfloor> then \<bar>b\<bar> powr e else - (\<bar>b\<bar> powr e))
           else NaN)"
| "np_pow PosInf e = (if e = 0 then Fin 1 else if 0 < e then PosInf else Fin 0)"
| "np_pow NegInf e =
     (if e = 0 then Fin 1 else if e < 0 then Fin 0
      else if is_integral e \<and> odd \<lfloor>e\<rfloor> then NegInf else PosInf)"
| "np_pow NaN e = (if e = 0 then Fin 1 else NaN)"

fun to_float :: "pynum \<Rightarrow> pyfloat" where
  "to_float (PyInt i) = Fin (of_int i)"
| "to_float (NpFloat x) = x"

fun py_add :: "pynum \<Rightarrow> pynum \<Rightarrow> pynum" where
  "py_add (PyInt a) (PyInt b) = PyInt (a + b)"
| "py_add x y = NpFloat (np_add (to_float x) (to_float y))"

fun py_sub :: "pynum \<Rightarrow> pynum \<Rightarrow> pynum" where
  "py_sub (PyInt a) (PyInt b) = PyInt (a - b)"
| "py_sub x y = NpFloat (np_sub (to_float x) (to_float y))"

text \<open>
  \<open>/\<close>: between two Python ints a zero divisor raises ZeroDivisionError; as soon as one
  operand is a numpy float64 the division is numpy's.
\<close>

fun py_truediv :: "pynum \<Rightarrow> pynum \<Rightarrow> error + pyfloat" where
  "py_truediv (PyInt a) (PyInt b) =
     (if b = 0 then Inl ZeroDivisionError else Inr (Fin (of_int a / of_int b)))"
| "py_truediv x y = Inr (np_div (to_float x) (to_float y))"

text \<open>\<open>max(x, 0)\<close> for a finite numpy float64 \<open>x\<close>: the int \<open>0\<close> only when \<open>0 > x\<close>.\<close>

definition py_max0 :: "real \<Rightarrow> pynum" where
  "py_max0 x = (if 0 > x then PyInt 0 else NpFloat (Fin x))"

text \<open>\<open>math.log\<close>: raises on a non-positive argument, passes \<open>inf\<close> and NaN through.\<close>

fun math_log :: "pyfloat \<Rightarrow> error + pyfloat" where
  "math_log (Fin v) =
     (if v \<le> 0 then Inl (ValueError ''math domain error'') else Inr (Fin (ln v)))"
| "math_log PosInf = Inr PosInf"
| "math_log NegInf = Inl (ValueError ''math domain error'')"
| "math_log NaN = Inr NaN"

section \<open>The data frame and pandas operations on a column\<close>

record row =
  Date :: string
  Close_Last :: real

text \<open>\<open>series[i]\<close> on a column with the default index: a label outside \<open>0..len-1\<close> is a KeyError.\<close>

definition series_get :: "'a list \<Rightarrow> int \<Rightarrow> error + 'a" where
  "series_get xs i =
     (if 0 \<le> i \<and> i < int (length xs) then Inr (xs ! nat i) else Inl KeyError)"

text \<open>\<open>series[lo:hi]\<close> for \<open>0 \<le> lo\<close>: positional, clipped to the length.\<close>

definition py_slice :: "nat \<Rightarrow> nat \<Rightarrow> 'a list \<Rightarrow> 'a list" where
  "py_slice lo hi xs = take (hi - lo) (drop lo xs)"

text \<open>\<open>prices / prices.shift(1)\<close>: the first quotient has no predecessor and is NaN.\<close>

fun shift_div :: "real list \<Rightarrow> pyfloat list" where
  "shift_div [] = []"
| "shift_div (p # ps) = NaN # map2 (\<lambda>cur prev. np_div (Fin cur) (Fin prev)) ps (p # ps)"

text \<open>\<open>.apply(math.log)\<close>: element by element, the first raise ends it.\<close>

fun apply_log :: "pyfloat list \<Rightarrow> error + pyfloat list" where
  "apply_log [] = Inr []"
| "apply_log (x # xs) =
     (case math_log x of
        Inl e \<Rightarrow> Inl e
      | Inr y \<Rightarrow> (case apply_log xs of Inl e \<Rightarrow> Inl e | Inr ys \<Rightarrow> Inr (y # ys)))"

definition dropna :: "pyfloat list \<Rightarrow> pyfloat list" where
  "dropna xs = filter (\<lambda>x. x \<noteq> NaN) xs"

fun finite_values :: "pyfloat list \<Rightarrow> real list option" where
  "finite_values [] = Some []"
| "finite_values (Fin v # xs) = map_option ((#) v) (finite_values xs)"
| "finite_values (x # xs) = None"

text \<open>
  \<open>Series.std()\<close>: NaN entries are skipped, the divisor is \<open>n - 1\<close> (ddof = 1); fewer than
  two values, or an infinity among them, give NaN.
\<close>

definition std :: "pyfloat list \<Rightarrow> pyfloat" where
  "std xs =
     (let ys = dropna xs in
      if length ys < 2 then NaN
      else case finite_values ys of
             None \<Rightarrow> NaN
           | Some vs \<Rightarrow>
               let m = sum_list vs / real (length vs)
               in Fin (sqrt (sum_list (map (\<lambda>v. (v - m) ^ 2) vs) / (real (length vs) - 1))))"

section \<open>volatility (optionsProfit.py)\<close>

definition volatility :: "int \<Rightarrow> row list \<Rightarrow> error + pyfloat" where
  "volatility index df =
     (if index < 252
      then Inl (ValueError ''Index too low for trailing volatility calculation'')
      else let prices = py_slice (nat (index - 252)) (nat index) (map Close_Last df)
           in case apply_log (shift_div prices) of
                Inl e \<Rightarrow> Inl e
              | Inr logs \<Rightarrow> Inr (np_mul (std (dropna logs)) (Fin (sqrt 252))))"

section \<open>diffCheck (optionsProfit.py)\<close>

definition strikeRatio :: real where
  "strikeRatio = 1.05"

text \<open>
  The call \<open>black_scholes_price(S, K, 1, r, vol, 'call')\<close> of the loop, whose \<open>vol\<close> is a
  numpy float64. On a NaN (or \<open>+inf\<close>) volatility the comparison \<open>sigma <= 0\<close> is false, so
  the guard still looks at \<open>S\<close> and \<open>K\<close>, and the arithmetic then yields NaN.
\<close>

definition black_scholes_call_np ::
  "(real \<Rightarrow> real) \<Rightarrow> real \<Rightarrow> real \<Rightarrow> real \<Rightarrow> pyfloat \<Rightarrow> error + pyfloat" where
  "black_scholes_call_np cdf S K r vol =
     (case vol of
        Fin sigma \<Rightarrow>
          (case black_scholes_price cdf S K 1 r sigma ''call'' of
             Inl e \<Rightarrow> Inl e
           | Inr price \<Rightarrow> Inr (Fin price))
      | NegInf \<Rightarrow> Inl (ValueError ''S, K, T, and sigma must be greater than 0.'')
      | _ \<Rightarrow>
          (if S \<le> 0 \<or> K \<le> 0
           then Inl (ValueError ''S, K, T, and sigma must be greater than 0.'')
           else Inr NaN))"

text \<open>What the run prints: one value per \<open>print\<close> call.\<close>

datatype printed =
    Separator
  | Line string pynum
  | DateLine string pyfloat real

record state =
  totalProfit :: int
  totalCost :: pynum
  netReturn :: pynum
  callPrices :: "pyfloat list"
  out :: "printed list"

definition init_state :: state where
  "init_state =
     \<lparr>totalProfit = 0, totalCost = PyInt 0, netReturn = PyInt 0, callPrices = [], out = []\<rparr>"

text \<open>
  One pass of the loop body for index \<open>i\<close>. Everything that can raise (the two reads of
  the column, \<open>volatility\<close>, the pricing) comes before the first \<open>print\<close> of the body.
\<close>

definition step :: "(real \<Rightarrow> real) \<Rightarrow> row list \<Rightarrow> int \<Rightarrow> state \<Rightarrow> error + state" where
  "step cdf df i st =
     (case series_get df i of
        Inl e \<Rightarrow> Inl e
      | Inr r \<Rightarrow>
     let S = Close_Last r; K = S * strikeRatio in
     (case volatility i df of
        Inl e \<Rightarrow> Inl e
      | Inr vol \<Rightarrow>
     (case black_scholes_call_np cdf S K (strikeRatio - 1) vol of
        Inl e \<Rightarrow> Inl e
      | Inr callPrice \<Rightarrow>
     (case series_get df (i + 252) of
        Inl e \<Rightarrow> Inl e
      | Inr fut \<Rightarrow>
     let yearlyProfit = Close_Last fut - strikeRatio * S in
     Inr (st\<lparr>callPrices := callPrices st @ [callPrice],
             netReturn := py_add (netReturn st) (py_max0 (Close_Last fut - 1.05 * S)),
             totalCost := py_add (totalCost st) (NpFloat callPrice),
             out := out st @
               [Line ''Index'' (PyInt i),
                Line ''Stock Price (S)'' (NpFloat (Fin S)),
                Line ''Strike Price (K)'' (NpFloat (Fin K)),
                Line ''Volatility'' (NpFloat vol),
                Line ''Call Price'' (NpFloat callPrice),
                Line ''Yearly Profit'' (NpFloat (Fin yearlyProfit)),
                Separator,
                DateLine (Date r) callPrice yearlyProfit]\<rparr>)))))"

text \<open>\<open>range(a, b)\<close>.\<close>

definition range_py :: "int \<Rightarrow> int \<Rightarrow> int list" where
  "range_py a b = [a..b - 1]"

text \<open>The \<open>for\<close> loop: a raise in the body ends the run with the state reached so far.\<close>

fun loop :: "(real \<Rightarrow> real) \<Rightarrow> row list \<Rightarrow> int list \<Rightarrow> state \<Rightarrow> state \<times> error option" where
  "loop cdf df [] st = (st, None)"
| "loop cdf df (i # is) st =
     (case step cdf df i st of
        Inl e \<Rightarrow> (st, Some e)
      | Inr st' \<Rightarrow> loop cdf df is st')"

text \<open>Lines 80 to 89: the summary after the loop.\<close>

definition finish :: "int \<Rightarrow> int \<Rightarrow> state \<Rightarrow> state \<times> (error + int)" where
  "finish start_index row_count st =
     (let st1 = st\<lparr>out := out st @
                  [Separator, Separator,
                   Line ''Total Profit'' (py_sub (netReturn st) (totalCost st)),
                   Line ''Total Cost'' (totalCost st)]\<rparr>
      in case py_truediv (py_sub (netReturn st) (totalCost st)) (totalCost st) of
           Inl e \<Rightarrow> (st1, Inl e)
         | Inr roi \<Rightarrow>
      let st2 = st1\<lparr>out := out st1 @ [Line ''Return on investment'' (NpFloat roi)]\<rparr>;
          years = real_of_int ((row_count - 252) - start_index) / 252;
          st3 = st2\<lparr>out := out st2 @ [Line ''Years'' (NpFloat (Fin years))]\<rparr>
      in case py_truediv (netReturn st) (totalCost st) of
           Inl e \<Rightarrow> (st3, Inl e)
         | Inr base \<Rightarrow>
             if years = 0 then (st3, Inl ZeroDivisionError)
             else (st3\<lparr>out := out st3 @
                          [Line ''Annualized returns'' (NpFloat (np_pow base (1 / years)))]\<rparr>,
                   Inr (totalProfit st)))"

text \<open>
  \<open>diffCheck(start_index)\<close>, with the data frame that \<open>preprocess_data()\<close> reads as an
  argument. The result is the state at the end (with everything printed) and either the
  exception that ended the run or the returned value.
\<close>

definition diffCheck :: "(real \<Rightarrow> real) \<Rightarrow> int \<Rightarrow> row list \<Rightarrow> state \<times> (error + int)" where
  "diffCheck cdf start_index df =
     (let row_count = int (length df)
      in case loop cdf df (range_py start_index (row_count - 252)) init_state of
           (st, Some e) \<Rightarrow> (st, Inl e)
         | (st, None) \<Rightarrow> finish start_index row_count st)"

text \<open>The indices whose \<open>Index\<close> line was printed, and the per-step lines.\<close>

fun printed_indices :: "printed list \<Rightarrow> int list" where
  "printed_indices [] = []"
| "printed_indices (Line l (PyInt i) # ps) =
     (if l = ''Index'' then i # printed_indices ps else printed_indices ps)"
| "printed_indices (p # ps) = printed_indices ps"

fun yearly_profits :: "printed list \<Rightarrow> real list" where
  "yearly_profits [] = []"
| "yearly_profits (DateLine d c y # ps) = y # yearly_profits ps"
| "yearly_profits (p # ps) = yearly_profits ps"

section \<open>The formulas as the specification words them\<close>

text \<open>Daily log returns of a window and their sample standard deviation (ddof = 1).\<close>

definition spec_log_returns :: "real list \<Rightarrow> real list" where
  "spec_log_returns w = map (\<lambda>t. ln (w ! t / w ! (t - 1))) [1..<length w]"

definition spec_mean :: "real list \<Rightarrow> real" where
  "spec_mean xs = sum_list xs / real (length xs)"

definition spec_sample_std :: "real list \<Rightarrow> real" where
  "spec_sample_std xs =
     sqrt (sum_list (map (\<lambda>x. (x - spec_mean xs)\<^sup>2) xs) / (real (length xs) - 1))"

text \<open>The closes at the positions \<open>[index - 252, index)\<close>.\<close>

definition spec_window :: "int \<Rightarrow> real list \<Rightarrow> real list" where
  "spec_window index closes = map (\<lambda>j. closes ! j) [nat index - 252..<nat index]"

section \<open>Properties of black_scholes_price\<close>

lemma lower_call: "lower ''call'' = ''call''" by code_simp






section \<open>Properties of volatility\<close>

lemma take_drop_nth_upt:
  "b \<le> length xs \<Longrightarrow> take (b - a) (drop a xs) = map (\<lambda>j. xs ! j) [a..<b]"
proof (rule nth_equalityI)
  assume "b \<le> length xs"
  then show "length (take (b - a) (drop a xs)) = length (map (\<lambda>j. xs ! j) [a..<b])"
    by simp
next
  fix i
  assume "b \<le> length xs" "i < length (take (b - a) (drop a xs))"
  then have "i < b - a" "a + i < length xs" by simp_all
  then show "take (b - a) (drop a xs) ! i = map (\<lambda>j. xs ! j) [a..<b] ! i"
    by simp
qed

lemma py_slice_window:
  assumes "252 \<le> index" "index \<le> int (length closes)"
  shows "py_slice (nat (index - 252)) (nat index) closes = spec_window index closes"
proof -
  have le: "nat index \<le> length closes" using assms by linarith
  have eq: "nat (index - 252) = nat index - 252" by linarith
  show ?thesis
    unfolding py_slice_def spec_window_def eq by (rule take_drop_nth_upt[OF le])
qed

lemma length_spec_window: "252 \<le> index \<Longrightarrow> length (spec_window index closes) = 252"
  by (simp add: spec_window_def)

lemma apply_log_Fin:
  "\<forall>x\<in>set xs. 0 < x \<Longrightarrow> apply_log (map Fin xs) = Inr (map (\<lambda>x. Fin (ln x)) xs)"
  by (induction xs) auto

lemma shift_div_pos:
  assumes "\<And>x. x \<in> set (p # ps) \<Longrightarrow> 0 < x"
  shows "shift_div (p # ps) = NaN # map Fin (map2 (\<lambda>cur prev. cur / prev) ps (p # ps))"
proof -
  have "np_div (Fin cur) (Fin prev) = Fin (cur / prev)"
    if "(cur, prev) \<in> set (zip ps (p # ps))" for cur prev
  proof -
    from that have "prev \<in> set (p # ps)" by (rule set_zip_rightD)
    then have "0 < prev" by (rule assms)
    then show ?thesis by simp
  qed
  then show ?thesis by auto
qed

lemma map2_log_returns:
  "map2 (\<lambda>cur prev. ln (cur / prev)) ps (p # ps) = spec_log_returns (p # ps)"
proof (rule nth_equalityI)
  show "length (map2 (\<lambda>cur prev. ln (cur / prev)) ps (p # ps)) = length (spec_log_returns (p # ps))"
    by (simp add: spec_log_returns_def del: upt_Suc)
next
  fix i
  assume "i < length (map2 (\<lambda>cur prev. ln (cur / prev)) ps (p # ps))"
  then have i: "i < length ps" by simp
  then have "spec_log_returns (p # ps) ! i = ln ((p # ps) ! Suc i / (p # ps) ! i)"
    unfolding spec_log_returns_def by (simp del: upt_Suc add: nth_map_upt)
  with i show "map2 (\<lambda>cur prev. ln (cur / prev)) ps (p # ps) ! i = spec_log_returns (p # ps) ! i"
    by simp
qed

lemma apply_log_shift_div:
  assumes "\<And>x. x \<in> set w \<Longrightarrow> 0 < x" "w \<noteq> []"
  shows "apply_log (shift_div w) = Inr (NaN # map Fin (spec_log_returns w))"
proof -
  obtain p ps where w: "w = p # ps" using assms(2) by (cases w) auto
  have pos: "0 < x" if "x \<in> set (map2 (\<lambda>cur prev. cur / prev) ps (p # ps))" for x
  proof -
    from that obtain cur prev where "(cur, prev) \<in> set (zip ps (p # ps))" "x = cur / prev"
      by auto
    moreover then have "cur \<in> set w" "prev \<in> set w"
      unfolding w by (auto dest: set_zip_leftD set_zip_rightD)
    ultimately show ?thesis using assms(1) by simp
  qed
  have "shift_div w = NaN # map Fin (map2 (\<lambda>cur prev. cur / prev) ps (p # ps))"
    unfolding w by (rule shift_div_pos) (use assms(1) w in blast)
  then have "apply_log (shift_div w) =
        Inr (NaN # map (\<lambda>x. Fin (ln x)) (map2 (\<lambda>cur prev. cur / prev) ps (p # ps)))"
    using apply_log_Fin[of "map2 (\<lambda>cur prev. cur / prev) ps (p # ps)"] pos by simp
  also have "map (\<lambda>x. Fin (ln x)) (map2 (\<lambda>cur prev. cur / prev) ps (p # ps)) =
             map Fin (map2 (\<lambda>cur prev. ln (cur / prev)) ps (p # ps))"
    by (simp add: case_prod_unfold)
  finally show ?thesis by (simp only: map2_log_returns w)
qed

lemma dropna_Fin: "dropna (map Fin xs) = map Fin xs"
  by (induction xs) (simp_all add: dropna_def)

lemma finite_values_Fin: "finite_values (map Fin xs) = Some xs"
  by (induction xs) simp_all

lemma std_Fin:
  "2 \<le> length xs \<Longrightarrow> std (map Fin xs) = Fin (spec_sample_std xs)"
  by (simp add: std_def dropna_Fin finite_values_Fin spec_sample_std_def spec_mean_def Let_def)

lemma length_spec_log_returns: "length (spec_log_returns w) = length w - 1"
  by (simp add: spec_log_returns_def)

lemma volatility_pos:
  assumes "252 \<le> index" "index \<le> int (length df)"
    and "\<And>x. x \<in> set (spec_window index (map Close_Last df)) \<Longrightarrow> 0 < x"
  shows "volatility index df =
         Inr (Fin (spec_sample_std (spec_log_returns (spec_window index (map Close_Last df))) * sqrt 252))"
proof -
  let ?w = "spec_window index (map Close_Last df)"
  have sl: "py_slice (nat (index - 252)) (nat index) (map Close_Last df) = ?w"
    using assms(1,2) by (intro py_slice_window) simp_all
  have ne: "?w \<noteq> []" using length_spec_window[OF assms(1), of "map Close_Last df"] by auto
  have len: "2 \<le> length (spec_log_returns ?w)"
    by (simp add: length_spec_log_returns length_spec_window[OF assms(1)])
  show ?thesis
    using assms(1) len
    by (simp add: volatility_def sl apply_log_shift_div[OF assms(3) ne] dropna_def[of "NaN # _"]
        dropna_Fin std_Fin Let_def)
qed

lemma spec_log_returns_constant:
  assumes "\<forall>x\<in>set w. x = c" "c \<noteq> 0"
  shows "\<forall>x\<in>set (spec_log_returns w). x = 0"
proof -
  have "w ! t / w ! (t - 1) = 1" if "t < length w" for t
  proof -
    have "t - 1 < length w" using that by simp
    then have "w ! t = c" "w ! (t - 1) = c" using assms(1) that by (auto simp: all_set_conv_all_nth)
    then show ?thesis using assms(2) by simp
  qed
  then show ?thesis by (auto simp: spec_log_returns_def)
qed

lemma sum_list_zero: "\<forall>x\<in>set xs. x = (0::real) \<Longrightarrow> sum_list xs = 0"
  by (induction xs) auto

lemma spec_sample_std_zero:
  assumes "\<forall>x\<in>set xs. x = 0"
  shows "spec_sample_std xs = 0"
proof -
  have m: "spec_mean xs = 0" using sum_list_zero[OF assms] by (simp add: spec_mean_def)
  have "\<forall>y\<in>set (map (\<lambda>x. (x - spec_mean xs)\<^sup>2) xs). y = 0"
    using assms by (auto simp: m)
  then have "sum_list (map (\<lambda>x. (x - spec_mean xs)\<^sup>2) xs) = 0" by (rule sum_list_zero)
  then show ?thesis by (simp add: spec_sample_std_def)
qed

lemma apply_log_error:
  "apply_log xs = Inl e \<Longrightarrow> e = ValueError ''math domain error''"
proof (induction xs)
  case Nil
  then show ?case by simp
next
  case (Cons x xs)
  then show ?case
    by (cases x) (auto split: sum.splits if_splits)
qed

lemma volatility_error:
  assumes "252 \<le> index" "volatility index df = Inl e"
  shows "e = ValueError ''math domain error''"
  using assms by (auto simp: volatility_def Let_def split: sum.splits dest: apply_log_error)












lemma spec_log_returns_nth:
  "Suc t < length w \<Longrightarrow> spec_log_returns w ! t = ln (w ! Suc t / w ! t)"
proof -
  assume a: "Suc t < length w"
  then have "t < length [1..<length w]" by simp
  then have "spec_log_returns w ! t = ln (w ! ([1..<length w] ! t) / w ! ([1..<length w] ! t - 1))"
    unfolding spec_log_returns_def by (rule nth_map)
  moreover have "[1..<length w] ! t = Suc t" using a nth_upt[of 1 t "length w"] by simp
  ultimately show ?thesis by simp
qed






lemma sum_list_ge_member:
  "\<forall>t\<in>set ts. (0::real) \<le> t \<Longrightarrow> z \<in> set ts \<Longrightarrow> z \<le> sum_list ts"
proof (induction ts)
  case Nil
  then show ?case by simp
next
  case (Cons t ts)
  have nn: "0 \<le> sum_list ts" using Cons.prems(1) by (intro sum_list_nonneg) simp
  show ?case
  proof (cases "z = t")
    case True
    then show ?thesis using nn by simp
  next
    case False
    then have "z \<le> sum_list ts" using Cons by simp
    moreover have "0 \<le> t" using Cons.prems(1) by simp
    ultimately show ?thesis by simp
  qed
qed

lemma spec_sample_std_pos:
  assumes "x \<in> set xs" "y \<in> set xs" "x \<noteq> y" "2 \<le> length xs"
  shows "0 < spec_sample_std xs"
proof -
  let ?m = "spec_mean xs"
  obtain z where z: "z \<in> set xs" "z \<noteq> ?m" using assms(1-3) by metis
  have "(z - ?m)\<^sup>2 \<in> set (map (\<lambda>x. (x - ?m)\<^sup>2) xs)" using z(1) by simp
  moreover have "\<forall>t\<in>set (map (\<lambda>x. (x - ?m)\<^sup>2) xs). 0 \<le> t" by simp
  ultimately have "(z - ?m)\<^sup>2 \<le> sum_list (map (\<lambda>x. (x - ?m)\<^sup>2) xs)"
    by (intro sum_list_ge_member)
  moreover have "0 < (z - ?m)\<^sup>2" using z(2) by simp
  ultimately have "0 < sum_list (map (\<lambda>x. (x - ?m)\<^sup>2) xs)" by linarith
  moreover have "0 < real (length xs) - 1" using assms(4) by simp
  ultimately show ?thesis by (simp add: spec_sample_std_def)
qed

lemma example_window:
  "spec_window 252 (map Close_Last
      (\<lparr>Date = ''d'', Close_Last = 2\<rparr> # replicate 504 \<lparr>Date = ''d'', Close_Last = 1\<rparr>)) =
   2 # replicate 251 1"
proof -
  have "spec_window 252 (map Close_Last
      (\<lparr>Date = ''d'', Close_Last = 2\<rparr> # replicate 504 \<lparr>Date = ''d'', Close_Last = 1\<rparr>)) =
    py_slice (nat (252 - 252)) (nat 252) (map Close_Last
      (\<lparr>Date = ''d'', Close_Last = 2\<rparr> # replicate 504 \<lparr>Date = ''d'', Close_Last = 1\<rparr>))"
    by (rule py_slice_window[symmetric]) simp_all
  then show ?thesis by (simp add: py_slice_def)
qed

lemma example_volatility:
  "\<exists>sigma. 0 < sigma \<and>
     volatility 252
       (\<lparr>Date = ''d'', Close_Last = 2\<rparr> # replicate 504 \<lparr>Date = ''d'', Close_Last = 1\<rparr>) =
     Inr (Fin sigma)"
proof -
  let ?df = "\<lparr>Date = ''d'', Close_Last = 2\<rparr> # replicate 504 \<lparr>Date = ''d'', Close_Last = 1\<rparr>"
  let ?w = "2 # replicate 251 (1::real)"
  let ?xs = "spec_log_returns ?w"
  have pos: "0 < x" if "x \<in> set (spec_window 252 (map Close_Last ?df))" for x
    using that unfolding example_window by auto
  have "volatility 252 ?df =
        Inr (Fin (spec_sample_std (spec_log_returns (spec_window 252 (map Close_Last ?df)))
                  * sqrt 252))"
    by (rule volatility_pos[OF _ _ pos]) simp_all
  then have v: "volatility 252 ?df = Inr (Fin (spec_sample_std ?xs * sqrt 252))"
    unfolding example_window .
  have len: "length ?xs = 251" by (simp add: length_spec_log_returns)
  have x0: "?xs ! 0 = ln (1 / 2)" by (subst spec_log_returns_nth) simp_all
  have x1: "?xs ! 1 = 0" by (simp add: spec_log_returns_nth)
  have "?xs ! 0 \<in> set ?xs" "?xs ! 1 \<in> set ?xs" by (rule nth_mem, simp add: len)+
  moreover have "?xs ! 0 \<noteq> ?xs ! 1" unfolding x0 x1 by simp
  moreover have "2 \<le> length ?xs" using len by simp
  ultimately have "0 < spec_sample_std ?xs" by (rule spec_sample_std_pos)
  then have "0 < spec_sample_std ?xs * sqrt 252" by simp
  with v show ?thesis by blast
qed







text \<open>
  C9, as amended. \<open>volatility\<close> fails with the error for a too low index exactly when
  \<open>index < 252\<close>: index 251 fails with it, and index 252 does not: there the call returns a
  value unless \<open>math.log\<close> raises its domain error on the quotient of two consecutive closes.
\<close>

theorem volatility_insufficient_history:
  "(volatility index df = Inl (ValueError ''Index too low for trailing volatility calculation'')
      \<longleftrightarrow> index < 252) \<and>
   volatility 251 df = Inl (ValueError ''Index too low for trailing volatility calculation'') \<and>
   ((\<exists>v. volatility 252 df = Inr v) \<or>
    volatility 252 df = Inl (ValueError ''math domain error''))"
proof (intro conjI)
  show "(volatility index df = Inl (ValueError ''Index too low for trailing volatility calculation''))
        = (index < 252)"
  proof
    assume a: "volatility index df = Inl (ValueError ''Index too low for trailing volatility calculation'')"
    show "index < 252"
    proof (rule ccontr)
      assume "\<not> index < 252"
      then have "252 \<le> index" by simp
      from volatility_error[OF this a] show False by simp
    qed
  next
    assume "index < 252"
    then show "volatility index df = Inl (ValueError ''Index too low for trailing volatility calculation'')"
      by (simp add: volatility_def)
  qed
next
  show "volatility 251 df = Inl (ValueError ''Index too low for trailing volatility calculation'')"
    by (simp add: volatility_def)
next
  show "(\<exists>v. volatility 252 df = Inr v) \<or>
        volatility 252 df = Inl (ValueError ''math domain error'')"
  proof (cases "volatility 252 df")
    case (Inl e)
    then show ?thesis using volatility_error[of 252 df e] by simp
  next
    case (Inr v)
    then show ?thesis by blast
  qed
qed

text \<open>
  C9 as stated fails in its last part: index 252 on a series of 252 rows does not return
  when a close in the window is 0; the error is then the one of \<open>math.log\<close>, not the one for
  a too low index.
\<close>

theorem volatility_index_252_counterexample:
  "volatility 252
     (\<lparr>Date = ''d'', Close_Last = 100\<rparr> # \<lparr>Date = ''d'', Close_Last = 0\<rparr> #
      replicate 250 \<lparr>Date = ''d'', Close_Last = 100\<rparr>) =
     Inl (ValueError ''math domain error'')"
  by (simp add: volatility_def py_slice_def)

theorem volatility_insufficient_history_witness:
  "volatility 251 (replicate 252 \<lparr>Date = ''d'', Close_Last = 100\<rparr>) =
     Inl (ValueError ''Index too low for trailing volatility calculation'') \<and>
   volatility 252 (replicate 252 \<lparr>Date = ''d'', Close_Last = 100\<rparr>) \<noteq>
     Inl (ValueError ''Index too low for trailing volatility calculation'')"
  using volatility_insufficient_history
          [of 252 "replicate 252 \<lparr>Date = ''d'', Close_Last = 100\<rparr>"]
  by simp

section \<open>Properties of diffCheck\<close>

lemma series_get_InrD:
  "series_get xs i = Inr x \<Longrightarrow> 0 \<le> i \<and> i < int (length xs) \<and> x = xs ! nat i"
  by (auto simp: series_get_def split: if_splits)

lemma step_InrD:
  assumes "step cdf df i st = Inr st'"
  shows "0 \<le> i \<and> i + 252 < int (length df)"
    and "totalProfit st' = totalProfit st"
    and "\<exists>c. callPrices st' = callPrices st @ [c] \<and>
         totalCost st' = py_add (totalCost st) (NpFloat c)"
    and "netReturn st' = py_add (netReturn st)
        (py_max0 (Close_Last (df ! nat (i + 252)) - 1.05 * Close_Last (df ! nat i)))"
    and "printed_indices (out st') = printed_indices (out st) @ [i]"
    and "yearly_profits (out st') = yearly_profits (out st) @
        [Close_Last (df ! nat (i + 252)) - strikeRatio * Close_Last (df ! nat i)]"
proof -
  from assms obtain r vol c fut where
    r: "series_get df i = Inr r" and
    fut: "series_get df (i + 252) = Inr fut" and
    st': "st' = st\<lparr>callPrices := callPrices st @ [c],
             netReturn := py_add (netReturn st) (py_max0 (Close_Last fut - 1.05 * Close_Last r)),
             totalCost := py_add (totalCost st) (NpFloat c),
             out := out st @
               [Line ''Index'' (PyInt i),
                Line ''Stock Price (S)'' (NpFloat (Fin (Close_Last r))),
                Line ''Strike Price (K)'' (NpFloat (Fin (Close_Last r * strikeRatio))),
                Line ''Volatility'' (NpFloat vol),
                Line ''Call Price'' (NpFloat c),
                Line ''Yearly Profit'' (NpFloat (Fin (Close_Last fut - strikeRatio * Close_Last r))),
                Separator,
                DateLine (Date r) c (Close_Last fut - strikeRatio * Close_Last r)]\<rparr>"
    by (auto simp: step_def Let_def split: sum.splits)
  note rD = series_get_InrD[OF r] and fD = series_get_InrD[OF fut]
  show "0 \<le> i \<and> i + 252 < int (length df)" using rD fD by simp
  show "totalProfit st' = totalProfit st" by (simp add: st')
  show "\<exists>c. callPrices st' = callPrices st @ [c] \<and>
         totalCost st' = py_add (totalCost st) (NpFloat c)" by (simp add: st')
  show "netReturn st' = py_add (netReturn st)
        (py_max0 (Close_Last (df ! nat (i + 252)) - 1.05 * Close_Last (df ! nat i)))"
    using rD fD by (simp add: st')
  have pi: "printed_indices (xs @ ys) = printed_indices xs @ printed_indices ys" for xs ys
    by (induction xs rule: printed_indices.induct) simp_all
  have yp: "yearly_profits (xs @ ys) = yearly_profits xs @ yearly_profits ys" for xs ys
    by (induction xs rule: yearly_profits.induct) simp_all
  show "printed_indices (out st') = printed_indices (out st) @ [i]"
    by (simp add: st' pi)
  show "yearly_profits (out st') = yearly_profits (out st) @
        [Close_Last (df ! nat (i + 252)) - strikeRatio * Close_Last (df ! nat i)]"
    using rD fD by (simp add: st' yp)
qed

lemma to_float_py_add: "to_float (py_add a b) = np_add (to_float a) (to_float b)"
  by (cases a; cases b) simp_all

lemma to_float_py_max0: "to_float (py_max0 x) = Fin (max x 0)"
  by (simp add: py_max0_def max_def)

lemma py_add_NpFloat: "\<exists>d. py_add a (NpFloat c) = NpFloat d"
  by (cases a) simp_all

lemma loop_NoneD:
  assumes "loop cdf df js st = (st', None)"
  shows "totalProfit st' = totalProfit st"
    and "length (callPrices st') = length (callPrices st) + length js"
    and "printed_indices (out st') = printed_indices (out st) @ js"
    and "yearly_profits (out st') = yearly_profits (out st) @
           map (\<lambda>i. Close_Last (df ! nat (i + 252)) - strikeRatio * Close_Last (df ! nat i)) js"
    and "to_float (netReturn st) = Fin a \<Longrightarrow>
         to_float (netReturn st') =
           Fin (a + sum_list (map (\<lambda>i. max (Close_Last (df ! nat (i + 252))
                                               - 1.05 * Close_Last (df ! nat i)) 0) js))"
    and "js \<noteq> [] \<Longrightarrow> \<exists>c. totalCost st' = NpFloat c"
  using assms
proof (induction js arbitrary: st a)
  case Nil
  {
    case 1 then show ?case by simp
  next
    case 2 then show ?case by simp
  next
    case 3 then show ?case by simp
  next
    case 4 then show ?case by simp
  next
    case 5 then show ?case by simp
  next
    case 6 then show ?case by simp
  }
next
  case (Cons j js)
  {
    case 1
    then obtain s1 where s: "step cdf df j st = Inr s1" and l: "loop cdf df js s1 = (st', None)"
      by (auto split: sum.splits)
    show ?case using Cons.IH(1)[OF l] step_InrD(2)[OF s] by simp
  next
    case 2
    then obtain s1 where s: "step cdf df j st = Inr s1" and l: "loop cdf df js s1 = (st', None)"
      by (auto split: sum.splits)
    show ?case using Cons.IH(2)[OF l] step_InrD(3)[OF s] by auto
  next
    case 3
    then obtain s1 where s: "step cdf df j st = Inr s1" and l: "loop cdf df js s1 = (st', None)"
      by (auto split: sum.splits)
    show ?case using Cons.IH(3)[OF l] step_InrD(5)[OF s] by simp
  next
    case 4
    then obtain s1 where s: "step cdf df j st = Inr s1" and l: "loop cdf df js s1 = (st', None)"
      by (auto split: sum.splits)
    show ?case using Cons.IH(4)[OF l] step_InrD(6)[OF s] by simp
  next
    case 5
    then obtain s1 where s: "step cdf df j st = Inr s1" and l: "loop cdf df js s1 = (st', None)"
      by (auto split: sum.splits)
    have "to_float (netReturn s1) =
          Fin (a + max (Close_Last (df ! nat (j + 252)) - 1.05 * Close_Last (df ! nat j)) 0)"
      using step_InrD(4)[OF s] 5(1) by (simp add: to_float_py_add to_float_py_max0)
    from Cons.IH(5)[OF this l] show ?case by (simp add: add.assoc)
  next
    case 6
    then obtain s1 where s: "step cdf df j st = Inr s1" and l: "loop cdf df js s1 = (st', None)"
      by (auto split: sum.splits)
    show ?case
    proof (cases "js = []")
      case True
      then have "st' = s1" using l by simp
      then show ?thesis using step_InrD(3)[OF s] py_add_NpFloat by metis
    next
      case False
      then show ?thesis using Cons.IH(6)[OF _ l] by simp
    qed
  }
qed

lemma to_float_py_sub: "to_float (py_sub a b) = np_sub (to_float a) (to_float b)"
  by (cases a; cases b) (simp_all add: np_sub_def)

lemma py_truediv_InrD: "py_truediv x y = Inr q \<Longrightarrow> q = np_div (to_float x) (to_float y)"
  by (cases x; cases y) (auto split: if_splits)

lemma finish_InrD:
  assumes "finish start_index row_count st0 = (st, Inr v)"
  shows "v = totalProfit st0"
    and "callPrices st = callPrices st0 \<and> netReturn st = netReturn st0 \<and>
         totalCost st = totalCost st0"
    and "out st = out st0 @
          [Separator, Separator,
           Line ''Total Profit'' (py_sub (netReturn st0) (totalCost st0)),
           Line ''Total Cost'' (totalCost st0),
           Line ''Return on investment''
             (NpFloat (np_div (np_sub (to_float (netReturn st0)) (to_float (totalCost st0)))
                              (to_float (totalCost st0)))),
           Line ''Years'' (NpFloat (Fin (real_of_int ((row_count - 252) - start_index) / 252))),
           Line ''Annualized returns''
             (NpFloat (np_pow (np_div (to_float (netReturn st0)) (to_float (totalCost st0)))
                              (1 / (real_of_int ((row_count - 252) - start_index) / 252))))]"
  using assms
  by (auto simp: finish_def Let_def to_float_py_sub split: sum.splits if_splits
           dest!: py_truediv_InrD)

lemma finish_no_step:
  "finish start_index row_count init_state =
     (init_state\<lparr>out := [Separator, Separator, Line ''Total Profit'' (PyInt 0),
                          Line ''Total Cost'' (PyInt 0)]\<rparr>,
      Inl ZeroDivisionError)"
  by (simp add: finish_def init_state_def)

lemma diffCheck_InrD:
  assumes "diffCheck cdf start_index df = (st, Inr v)"
  obtains st0 where
    "loop cdf df (range_py start_index (int (length df) - 252)) init_state = (st0, None)"
    "finish start_index (int (length df)) st0 = (st, Inr v)"
  using assms by (auto simp: diffCheck_def Let_def split: prod.splits option.splits)

lemma range_py_empty: "b \<le> a \<Longrightarrow> range_py a b = []"
  by (simp add: range_py_def)

lemma length_range_py: "length (range_py a b) = nat (b - a)"
  by (simp add: range_py_def)

lemma diffCheck_empty_range:
  assumes "int (length df) - 252 \<le> start_index"
  shows "diffCheck cdf start_index df =
     (init_state\<lparr>out := [Separator, Separator, Line ''Total Profit'' (PyInt 0),
                          Line ''Total Cost'' (PyInt 0)]\<rparr>,
      Inl ZeroDivisionError)"
  using assms by (simp add: diffCheck_def range_py_empty finish_no_step)

lemma printed_indices_append:
  "printed_indices (xs @ ys) = printed_indices xs @ printed_indices ys"
  by (induction xs rule: printed_indices.induct) simp_all

lemma printed_indices_Line:
  "l \<noteq> ''Index'' \<Longrightarrow> printed_indices (Line l x # ps) = printed_indices ps"
  by (cases x) simp_all

lemma yearly_profits_append:
  "yearly_profits (xs @ ys) = yearly_profits xs @ yearly_profits ys"
  by (induction xs rule: yearly_profits.induct) simp_all

text \<open>
  C5, as amended. On every run of \<open>diffCheck\<close> that returns (no step raises), the loop has
  visited exactly the indices \<open>start_index, ..., len - 252 - 1\<close> in ascending order, one
  call price was collected per index, so \<open>len - 252 - start_index\<close> of them, and the
  printed years figure is \<open>(len - 252 - start_index) / 252\<close>.
\<close>

theorem diffCheck_iterates_range:
  assumes "diffCheck cdf start_index df = (st, Inr v)"
  shows "printed_indices (out st) = [start_index..int (length df) - 252 - 1] \<and>
         start_index < int (length df) - 252 \<and>
         length (callPrices st) = nat (int (length df) - 252 - start_index) \<and>
         Line ''Years'' (NpFloat (Fin (real_of_int (int (length df) - 252 - start_index) / 252)))
           \<in> set (out st)"
proof -
  from assms obtain st0 where
    l: "loop cdf df (range_py start_index (int (length df) - 252)) init_state = (st0, None)" and
    f: "finish start_index (int (length df)) st0 = (st, Inr v)"
    by (rule diffCheck_InrD)
  have ne: "start_index < int (length df) - 252"
  proof (rule ccontr)
    assume "\<not> start_index < int (length df) - 252"
    then have "diffCheck cdf start_index df =
     (init_state\<lparr>out := [Separator, Separator, Line ''Total Profit'' (PyInt 0),
                          Line ''Total Cost'' (PyInt 0)]\<rparr>, Inl ZeroDivisionError)"
      by (intro diffCheck_empty_range) simp
    with assms show False by simp
  qed
  have "printed_indices (out st0) = range_py start_index (int (length df) - 252)"
    using loop_NoneD(3)[OF l] by (simp add: init_state_def)
  then have 1: "printed_indices (out st) = [start_index..int (length df) - 252 - 1]"
    by (simp add: finish_InrD(3)[OF f] printed_indices_append printed_indices_Line range_py_def)
  have 2: "length (callPrices st) = nat (int (length df) - 252 - start_index)"
    using loop_NoneD(2)[OF l] finish_InrD(2)[OF f]
    by (simp add: init_state_def length_range_py)
  have 3: "Line ''Years'' (NpFloat (Fin (real_of_int (int (length df) - 252 - start_index) / 252)))
           \<in> set (out st)"
    by (simp add: finish_InrD(3)[OF f])
  from 1 ne 2 3 show ?thesis by blast
qed

lemma diffCheck_yearly_profits:
  assumes "diffCheck cdf start_index df = (st, Inr v)"
  shows "yearly_profits (out st) =
           map (\<lambda>i. Close_Last (df ! nat (i + 252)) - strikeRatio * Close_Last (df ! nat i))
               (range_py start_index (int (length df) - 252))"
proof -
  from assms obtain st0 where
    l: "loop cdf df (range_py start_index (int (length df) - 252)) init_state = (st0, None)" and
    f: "finish start_index (int (length df)) st0 = (st, Inr v)"
    by (rule diffCheck_InrD)
  have "yearly_profits (out st0) =
           map (\<lambda>i. Close_Last (df ! nat (i + 252)) - strikeRatio * Close_Last (df ! nat i))
               (range_py start_index (int (length df) - 252))"
    using loop_NoneD(4)[OF l] by (simp add: init_state_def)
  then show ?thesis
    by (simp add: finish_InrD(3)[OF f] yearly_profits_append)
qed

lemma diffCheck_netReturn:
  assumes "diffCheck cdf start_index df = (st, Inr v)"
  shows "to_float (netReturn st) =
           Fin (sum_list (map (\<lambda>i. max (Close_Last (df ! nat (i + 252))
                                           - 1.05 * Close_Last (df ! nat i)) 0)
                              (range_py start_index (int (length df) - 252))))"
proof -
  from assms obtain st0 where
    l: "loop cdf df (range_py start_index (int (length df) - 252)) init_state = (st0, None)" and
    f: "finish start_index (int (length df)) st0 = (st, Inr v)"
    by (rule diffCheck_InrD)
  have "to_float (netReturn init_state) = Fin 0" by (simp add: init_state_def)
  from loop_NoneD(5)[OF l this] show ?thesis
    using finish_InrD(2)[OF f] by simp
qed

text \<open>
  C6, as amended. On every run that returns, the yearly profit printed in the record of
  step \<open>i\<close> is \<open>close (i + 252) - strikeRatio * close i\<close>, not floored; the floored
  \<open>max (close (i + 252) - 1.05 * close i) 0\<close> is what is summed into \<open>netReturn\<close>.
\<close>

theorem diffCheck_yearly_profit_unfloored:
  assumes "diffCheck cdf start_index df = (st, Inr v)"
  shows "yearly_profits (out st) =
           map (\<lambda>i. Close_Last (df ! nat (i + 252)) - strikeRatio * Close_Last (df ! nat i))
               (range_py start_index (int (length df) - 252)) \<and>
         to_float (netReturn st) =
           Fin (sum_list (map (\<lambda>i. max (Close_Last (df ! nat (i + 252))
                                           - 1.05 * Close_Last (df ! nat i)) 0)
                              (range_py start_index (int (length df) - 252))))"
  using diffCheck_yearly_profits[OF assms] diffCheck_netReturn[OF assms] by blast

text \<open>
  C7, as amended. The summary has no guard: when no step ran, the return on investment
  divides the int 0 by the int 0 and the run raises ZeroDivisionError; on every run that
  returns, the return on investment \<open>(netReturn - totalCost) / totalCost\<close> and the annualized
  return \<open>(netReturn / totalCost) ** (1 / years)\<close> are computed and printed under numpy's
  rules, whatever the values.
\<close>

theorem diffCheck_summary_unguarded:
  "(int (length df) - 252 \<le> start_index \<longrightarrow>
      snd (diffCheck cdf start_index df) = Inl ZeroDivisionError) \<and>
   (diffCheck cdf start_index df = (st, Inr v) \<longrightarrow>
      (\<exists>pre. out st = pre @
         [Line ''Return on investment''
            (NpFloat (np_div (np_sub (to_float (netReturn st)) (to_float (totalCost st)))
                             (to_float (totalCost st)))),
          Line ''Years'' (NpFloat (Fin (real_of_int (int (length df) - 252 - start_index) / 252))),
          Line ''Annualized returns''
            (NpFloat (np_pow (np_div (to_float (netReturn st)) (to_float (totalCost st)))
                             (1 / (real_of_int (int (length df) - 252 - start_index) / 252))))]))"
proof (intro conjI impI)
  assume "int (length df) - 252 \<le> start_index"
  then show "snd (diffCheck cdf start_index df) = Inl ZeroDivisionError"
    by (simp add: diffCheck_empty_range)
next
  assume "diffCheck cdf start_index df = (st, Inr v)"
  then obtain st0 where
    f: "finish start_index (int (length df)) st0 = (st, Inr v)"
    by (rule diffCheck_InrD)
  show "\<exists>pre. out st = pre @
         [Line ''Return on investment''
            (NpFloat (np_div (np_sub (to_float (netReturn st)) (to_float (totalCost st)))
                             (to_float (totalCost st)))),
          Line ''Years'' (NpFloat (Fin (real_of_int (int (length df) - 252 - start_index) / 252))),
          Line ''Annualized returns''
            (NpFloat (np_pow (np_div (to_float (netReturn st)) (to_float (totalCost st)))
                             (1 / (real_of_int (int (length df) - 252 - start_index) / 252))))]"
    using finish_InrD(2,3)[OF f] by simp
qed

text \<open>
  C8, as amended. When the range is empty (\<open>start_index \<ge> len - 252\<close>) no step runs, the two
  separators and the lines for a total profit and a total cost of 0 are printed, and the run
  then raises ZeroDivisionError at the return on investment.
\<close>

theorem diffCheck_empty_range_raises:
  assumes "int (length df) - 252 \<le> start_index"
  shows "diffCheck cdf start_index df =
     (init_state\<lparr>out := [Separator, Separator, Line ''Total Profit'' (PyInt 0),
                          Line ''Total Cost'' (PyInt 0)]\<rparr>,
      Inl ZeroDivisionError)"
  using assms by (rule diffCheck_empty_range)

text \<open>
  C10. Whenever \<open>diffCheck\<close> returns, it returns 0: \<open>totalProfit\<close> starts at 0 and no step and
  no line of the summary changes it.
\<close>

theorem diffCheck_returns_zero:
  assumes "diffCheck cdf start_index df = (st, Inr v)"
  shows "v = 0"
proof -
  from assms obtain st0 where
    l: "loop cdf df (range_py start_index (int (length df) - 252)) init_state = (st0, None)" and
    f: "finish start_index (int (length df)) st0 = (st, Inr v)"
    by (rule diffCheck_InrD)
  show ?thesis using loop_NoneD(1)[OF l] finish_InrD(1)[OF f] by (simp add: init_state_def)
qed

lemma black_scholes_call_np_Fin:
  assumes "0 < sigma" "0 < S"
  shows "\<exists>c. black_scholes_call_np cdf S (S * strikeRatio) (strikeRatio - 1) (Fin sigma) = Inr c"
proof -
  have "0 < S * strikeRatio" using assms(2) by (simp add: strikeRatio_def)
  then show ?thesis
    using assms by (simp add: black_scholes_call_np_def black_scholes_price_def Let_def lower_call)
qed

lemma step_succeeds:
  assumes "0 \<le> i" "i + 252 < int (length df)" "volatility i df = Inr (Fin sigma)"
    "0 < sigma" "0 < Close_Last (df ! nat i)"
  shows "\<exists>st'. step cdf df i st = Inr st'"
proof -
  obtain c where "black_scholes_call_np cdf (Close_Last (df ! nat i))
       (Close_Last (df ! nat i) * strikeRatio) (strikeRatio - 1) (Fin sigma) = Inr c"
    using black_scholes_call_np_Fin[OF assms(4,5)] by blast
  then show ?thesis
    using assms(1-3) by (simp add: step_def series_get_def Let_def)
qed

lemma diffCheck_completes:
  assumes "start_index < int (length df) - 252"
    and "loop cdf df (range_py start_index (int (length df) - 252)) init_state = (st0, None)"
  shows "\<exists>st. diffCheck cdf start_index df = (st, Inr 0)"
proof -
  have "range_py start_index (int (length df) - 252) \<noteq> []"
    using assms(1) length_range_py[of start_index "int (length df) - 252"] by auto
  then obtain c where c: "totalCost st0 = NpFloat c" using loop_NoneD(6)[OF assms(2)] by blast
  have tp: "totalProfit st0 = 0" using loop_NoneD(1)[OF assms(2)] by (simp add: init_state_def)
  have d1: "\<exists>q. py_truediv x (NpFloat c) = Inr q" for x by (cases x) simp_all
  obtain roi where roi: "py_truediv (py_sub (netReturn st0) (totalCost st0)) (totalCost st0) = Inr roi"
    using d1 c by metis
  obtain base where base: "py_truediv (netReturn st0) (totalCost st0) = Inr base"
    using d1 c by metis
  have y: "real_of_int (int (length df) - 252 - start_index) / 252 \<noteq> 0"
    using assms(1) by simp
  show ?thesis
    using y by (simp add: diffCheck_def assms(2) finish_def roi base tp Let_def)
qed

lemma example_run:
  "\<exists>st. diffCheck cdf 252
       (\<lparr>Date = ''d'', Close_Last = 2\<rparr> # replicate 504 \<lparr>Date = ''d'', Close_Last = 1\<rparr>) =
     (st, Inr 0)"
proof -
  let ?df = "\<lparr>Date = ''d'', Close_Last = 2\<rparr> # replicate 504 \<lparr>Date = ''d'', Close_Last = 1\<rparr>"
  obtain sigma where s: "0 < sigma" "volatility 252 ?df = Inr (Fin sigma)"
    using example_volatility by blast
  have "\<exists>st'. step cdf ?df 252 init_state = Inr st'"
    by (rule step_succeeds[OF _ _ s(2) s(1)]) simp_all
  then obtain st' where "step cdf ?df 252 init_state = Inr st'" by blast
  moreover have "range_py 252 (int (length ?df) - 252) = [252]"
    by (simp add: range_py_def upto.simps)
  ultimately have "loop cdf ?df (range_py 252 (int (length ?df) - 252)) init_state = (st', None)"
    by simp
  then show ?thesis by (intro diffCheck_completes[of 252 ?df cdf st']) simp_all
qed

lemma volatility_constant:
  assumes "252 \<le> index" "index \<le> int (length df)"
    and "\<forall>x\<in>set (spec_window index (map Close_Last df)). x = c" "0 < c"
  shows "volatility index df = Inr (Fin 0)"
proof -
  let ?w = "spec_window index (map Close_Last df)"
  have "volatility index df = Inr (Fin (spec_sample_std (spec_log_returns ?w) * sqrt 252))"
    using assms by (intro volatility_pos) auto
  moreover have "spec_sample_std (spec_log_returns ?w) = 0"
    using assms(3,4) by (intro spec_sample_std_zero spec_log_returns_constant[of _ c]) auto
  ultimately show ?thesis by simp
qed

lemma constant_window:
  "spec_window 252 (replicate 505 (100::real)) = replicate 252 100"
proof -
  have "spec_window 252 (replicate 505 (100::real)) =
    py_slice (nat (252 - 252)) (nat 252) (replicate 505 100)"
    by (rule py_slice_window[symmetric]) simp_all
  then show ?thesis by (simp add: py_slice_def)
qed

text \<open>
  C5 as stated, for every price series, fails: on 505 constant closes the volatility of the
  first step is 0, the pricing raises, and the run ends with no step done and no years
  figure.
\<close>

theorem diffCheck_constant_series_counterexample:
  "diffCheck norm_cdf 252 (replicate 505 \<lparr>Date = ''d'', Close_Last = 100\<rparr>) =
     (init_state, Inl (ValueError ''S, K, T, and sigma must be greater than 0.''))"
proof -
  let ?df = "replicate 505 \<lparr>Date = ''d'', Close_Last = 100\<rparr>"
  have v: "volatility 252 ?df = Inr (Fin 0)"
    by (rule volatility_constant[where c = 100]) (simp_all add: constant_window)
  have "step norm_cdf ?df 252 init_state =
        Inl (ValueError ''S, K, T, and sigma must be greater than 0.'')"
    by (simp add: step_def series_get_def v black_scholes_call_np_def black_scholes_price_def)
  moreover have "range_py 252 (int (length ?df) - 252) = [252]"
    by (simp add: range_py_def upto.simps)
  ultimately show ?thesis by (simp add: diffCheck_def)
qed

text \<open>
  A run that returns: one close of 2 followed by 504 closes of 1, started at 252.
\<close>

theorem diffCheck_iterates_range_witness:
  "\<exists>st. diffCheck norm_cdf 252
          (\<lparr>Date = ''d'', Close_Last = 2\<rparr> # replicate 504 \<lparr>Date = ''d'', Close_Last = 1\<rparr>) =
        (st, Inr 0) \<and>
        printed_indices (out st) = [252] \<and>
        length (callPrices st) = 1 \<and>
        Line ''Years'' (NpFloat (Fin (1 / 252))) \<in> set (out st)"
proof -
  let ?df = "\<lparr>Date = ''d'', Close_Last = 2\<rparr> # replicate 504 \<lparr>Date = ''d'', Close_Last = 1\<rparr>"
  obtain st where r: "diffCheck norm_cdf 252 ?df = (st, Inr 0)"
    using example_run[of norm_cdf] by blast
  from diffCheck_iterates_range[OF r] have
    "printed_indices (out st) = [252] \<and> length (callPrices st) = 1 \<and>
     Line ''Years'' (NpFloat (Fin (1 / 252))) \<in> set (out st)"
    by (simp add: upto.simps)
  with r show ?thesis by blast
qed

text \<open>
  C6 as stated fails: with closes 1 at both 252 and 504 the record of step 252 carries the
  yearly profit \<open>- 0.05\<close>, where the floored payoff is 0.
\<close>

theorem diffCheck_yearly_profit_counterexample:
  "yearly_profits (out (fst (diffCheck norm_cdf 252
      (\<lparr>Date = ''d'', Close_Last = 2\<rparr> # replicate 504 \<lparr>Date = ''d'', Close_Last = 1\<rparr>)))) =
     [- (1 / 20)] \<and>
   max ((1::real) - strikeRatio * 1) 0 = 0"
proof -
  let ?df = "\<lparr>Date = ''d'', Close_Last = 2\<rparr> # replicate 504 \<lparr>Date = ''d'', Close_Last = 1\<rparr>"
  obtain st where r: "diffCheck norm_cdf 252 ?df = (st, Inr 0)"
    using example_run[of norm_cdf] by blast
  have "range_py 252 (int (length ?df) - 252) = [252]"
    by (simp add: range_py_def upto.simps)
  with diffCheck_yearly_profits[OF r] have "yearly_profits (out st) = [- (1 / 20)]"
    by (simp add: strikeRatio_def)
  then show ?thesis using r by (simp add: strikeRatio_def)
qed

theorem diffCheck_yearly_profit_unfloored_witness:
  "\<exists>st. diffCheck norm_cdf 252
          (\<lparr>Date = ''d'', Close_Last = 2\<rparr> # replicate 504 \<lparr>Date = ''d'', Close_Last = 1\<rparr>) =
        (st, Inr 0) \<and>
        yearly_profits (out st) = [- (1 / 20)] \<and>
        to_float (netReturn st) = Fin 0"
proof -
  let ?df = "\<lparr>Date = ''d'', Close_Last = 2\<rparr> # replicate 504 \<lparr>Date = ''d'', Close_Last = 1\<rparr>"
  obtain st where r: "diffCheck norm_cdf 252 ?df = (st, Inr 0)"
    using example_run[of norm_cdf] by blast
  have rg: "range_py 252 (int (length ?df) - 252) = [252]"
    by (simp add: range_py_def upto.simps)
  from diffCheck_yearly_profit_unfloored[OF r] have
    "yearly_profits (out st) = [- (1 / 20)] \<and> to_float (netReturn st) = Fin 0"
    unfolding rg by (simp add: strikeRatio_def)
  with r show ?thesis by blast
qed

text \<open>
  C7 as stated fails: with no step, \<open>totalCost\<close> is 0 and the run raises instead of reporting
  an undefined return on investment.
\<close>

theorem diffCheck_roi_counterexample:
  "snd (diffCheck norm_cdf 252 []) = Inl ZeroDivisionError"
  by (simp add: diffCheck_empty_range)

theorem diffCheck_summary_unguarded_witness:
  "snd (diffCheck norm_cdf 300 (replicate 10 \<lparr>Date = ''d'', Close_Last = 100\<rparr>)) =
     Inl ZeroDivisionError \<and>
   (\<exists>st pre. diffCheck norm_cdf 252
          (\<lparr>Date = ''d'', Close_Last = 2\<rparr> # replicate 504 \<lparr>Date = ''d'', Close_Last = 1\<rparr>) =
        (st, Inr 0) \<and>
        out st = pre @
         [Line ''Return on investment''
            (NpFloat (np_div (np_sub (to_float (netReturn st)) (to_float (totalCost st)))
                             (to_float (totalCost st)))),
          Line ''Years'' (NpFloat (Fin (1 / 252))),
          Line ''Annualized returns''
            (NpFloat (np_pow (np_div (to_float (netReturn st)) (to_float (totalCost st))) 252))])"
proof -
  let ?df = "\<lparr>Date = ''d'', Close_Last = 2\<rparr> # replicate 504 \<lparr>Date = ''d'', Close_Last = 1\<rparr>"
  obtain st where r: "diffCheck norm_cdf 252 ?df = (st, Inr 0)"
    using example_run[of norm_cdf] by blast
  have a: "snd (diffCheck norm_cdf 300 (replicate 10 \<lparr>Date = ''d'', Close_Last = 100\<rparr>)) =
     Inl ZeroDivisionError"
    using diffCheck_summary_unguarded
            [of "replicate 10 \<lparr>Date = ''d'', Close_Last = 100\<rparr>" 300 norm_cdf]
    by simp
  have b: "\<exists>pre. out st = pre @
         [Line ''Return on investment''
            (NpFloat (np_div (np_sub (to_float (netReturn st)) (to_float (totalCost st)))
                             (to_float (totalCost st)))),
          Line ''Years'' (NpFloat (Fin (1 / 252))),
          Line ''Annualized returns''
            (NpFloat (np_pow (np_div (to_float (netReturn st)) (to_float (totalCost st))) 252))]"
    using diffCheck_summary_unguarded[of ?df 252 norm_cdf st 0] r by simp
  from a b r show ?thesis by blast
qed

text \<open>
  C8 as stated fails: on 300 rows started at 252 the failure comes after four lines were
  printed and is a ZeroDivisionError.
\<close>

theorem diffCheck_empty_range_counterexample:
  "out (fst (diffCheck norm_cdf 252 (replicate 300 \<lparr>Date = ''d'', Close_Last = 100\<rparr>))) =
     [Separator, Separator, Line ''Total Profit'' (PyInt 0), Line ''Total Cost'' (PyInt 0)] \<and>
   snd (diffCheck norm_cdf 252 (replicate 300 \<lparr>Date = ''d'', Close_Last = 100\<rparr>)) =
     Inl ZeroDivisionError"
  by (simp add: diffCheck_empty_range)

theorem diffCheck_empty_range_raises_witness:
  "diffCheck norm_cdf 252 (replicate 504 \<lparr>Date = ''d'', Close_Last = 100\<rparr>) =
     (init_state\<lparr>out := [Separator, Separator, Line ''Total Profit'' (PyInt 0),
                          Line ''Total Cost'' (PyInt 0)]\<rparr>,
      Inl ZeroDivisionError)"
  using diffCheck_empty_range_raises
          [of "replicate 504 \<lparr>Date = ''d'', Close_Last = 100\<rparr>" 252 norm_cdf]
  by simp

theorem diffCheck_returns_zero_witness:
  "\<exists>st v. diffCheck norm_cdf 252
          (\<lparr>Date = ''d'', Close_Last = 2\<rparr> # replicate 504 \<lparr>Date = ''d'', Close_Last = 1\<rparr>) =
        (st, Inr v) \<and> v = 0"
proof -
  let ?df = "\<lparr>Date = ''d'', Close_Last = 2\<rparr> # replicate 504 \<lparr>Date = ''d'', Close_Last = 1\<rparr>"
  obtain st where r: "diffCheck norm_cdf 252 ?df = (st, Inr 0)"
    using example_run[of norm_cdf] by blast
  from diffCheck_returns_zero[OF r] r show ?thesis by blast
qed

end
